theory Spec2Isabelle
  imports Complex_Main "HOL-Library.Char_ord" "HOL-Library.List_Lexorder"
begin

section \<open>SpendWell: anomaly detection, forecasting and budget projection\<close>

text \<open>
  A shallow embedding of \<^verbatim>\<open>database.py\<close>, \<^verbatim>\<open>anomaly_detector.py\<close> and
  \<^verbatim>\<open>predictive_analyzer.py\<close>. Amounts and scores are Python floats; they are modelled
  as real numbers, so rounding is outside the model. The three third-party estimators
  (StandardScaler, IsolationForest, Prophet) are modelled by what their interface
  documents; the randomised fitting of IsolationForest and Prophet is a parameter of
  every function that uses it.
\<close>

subsection \<open>Errors\<close>

text \<open>The exceptions that can leave the functions modelled here.\<close>

datatype py_error = ValueError | TypeError

subsection \<open>Timestamps and calendar arithmetic\<close>

text \<open>
  A timestamp is read by \<^verbatim>\<open>pd.to_datetime\<close> into its calendar fields. The arithmetic
  on days is the one of Python's \<^verbatim>\<open>datetime\<close> module: a date is converted to its
  proleptic Gregorian ordinal (day 1 is 0001-01-01) and back.
\<close>

record datetime =
  year :: int
  month :: int
  day :: int
  hour :: int
  minute :: int
  second :: int

definition DAYS_IN_MONTH :: "int list" where
  "DAYS_IN_MONTH = [-1, 31, 28, 31, 30, 31, 30, 31, 31, 30, 31, 30, 31]"

definition DAYS_BEFORE_MONTH :: "int list" where
  "DAYS_BEFORE_MONTH = [-1, 0, 31, 59, 90, 120, 151, 181, 212, 243, 273, 304, 334]"

definition is_leap :: "int \<Rightarrow> bool" where
  "is_leap y = (y mod 4 = 0 \<and> (y mod 100 \<noteq> 0 \<or> y mod 400 = 0))"

definition days_before_year :: "int \<Rightarrow> int" where
  "days_before_year y = (let y1 = y - 1 in y1 * 365 + y1 div 4 - y1 div 100 + y1 div 400)"

definition days_before_month :: "int \<Rightarrow> int \<Rightarrow> int" where
  "days_before_month y m =
     DAYS_BEFORE_MONTH ! nat m + (if m > 2 \<and> is_leap y then 1 else 0)"

definition ymd2ord :: "int \<Rightarrow> int \<Rightarrow> int \<Rightarrow> int" where
  "ymd2ord y m d = days_before_year y + days_before_month y m + d"

definition ord2ymd :: "int \<Rightarrow> int \<times> int \<times> int" where
  "ord2ymd ordinal =
     (let n = ordinal - 1;
          n400 = n div 146097; na = n mod 146097;
          n100 = na div 36524; nb = na mod 36524;
          n4 = nb div 1461; nc = nb mod 1461;
          n1 = nc div 365; nd = nc mod 365;
          y = n400 * 400 + 1 + n100 * 100 + n4 * 4 + n1
      in if n1 = 4 \<or> n100 = 4 then (y - 1, 12, 31)
         else
           let leapyear = (n1 = 3 \<and> (n4 \<noteq> 24 \<or> n100 = 3));
               m = (nd + 50) div 32;
               preceding = DAYS_BEFORE_MONTH ! nat m + (if m > 2 \<and> leapyear then 1 else 0)
           in if preceding > nd
              then (let m1 = m - 1;
                        preceding1 = preceding
                          - (DAYS_IN_MONTH ! nat m1 + (if m1 = 2 \<and> leapyear then 1 else 0))
                    in (y, m1, nd - preceding1 + 1))
              else (y, m, nd - preceding + 1))"

definition toordinal :: "datetime \<Rightarrow> int" where
  "toordinal t = ymd2ord (year t) (month t) (day t)"

text \<open>Seconds since the start of day 0: the order of timestamps, and of the
  \<^verbatim>\<open>YYYY-MM-DD HH:MM:SS\<close> texts SQLite compares.\<close>

definition total_seconds :: "datetime \<Rightarrow> int" where
  "total_seconds t = toordinal t * 86400 + hour t * 3600 + minute t * 60 + second t"

text \<open>\<^verbatim>\<open>t + timedelta(days=k)\<close>: the time of day is kept.\<close>

definition add_days :: "datetime \<Rightarrow> int \<Rightarrow> datetime" where
  "add_days t k =
     (case ord2ymd (toordinal t + k) of (y, m, d) \<Rightarrow> t\<lparr>year := y, month := m, day := d\<rparr>)"

text \<open>\<^verbatim>\<open>(a - b).days\<close>: a timedelta is normalised, so its days are the floor.\<close>

definition delta_days :: "datetime \<Rightarrow> datetime \<Rightarrow> int" where
  "delta_days a b = (total_seconds a - total_seconds b) div 86400"

text \<open>\<^verbatim>\<open>.dt.dayofweek\<close>: Monday is 0.\<close>

definition day_of_week :: "datetime \<Rightarrow> int" where
  "day_of_week t = (toordinal t + 6) mod 7"

subsection \<open>The transaction store (database.py)\<close>

text \<open>
  A row of the table \<^verbatim>\<open>expenses\<close>. The column \<^verbatim>\<open>id\<close> is written \<open>id'\<close>.
\<close>

record expense =
  id' :: int
  user_id :: int
  amount :: real
  category :: string
  payment_method :: string
  description :: "string option"
  timestamp :: datetime
  is_anomaly :: bool
  anomaly_score :: real

text \<open>A row of \<^verbatim>\<open>user_preferences\<close>, without its key \<^verbatim>\<open>user_id\<close>.\<close>

record preferences =
  monthly_income :: "real option"
  savings_goal :: "real option"
  risk_tolerance :: "string option"
  notification_enabled :: bool

text \<open>A row of the append-only table \<^verbatim>\<open>forecasts\<close>.\<close>

record forecast_row =
  fc_user_id :: int
  forecast_date :: int
  predicted_amount :: real
  fc_category :: string

record database =
  expenses :: "expense list"
  user_preferences :: "int \<rightharpoonup> preferences"
  forecasts :: "forecast_row list"

text \<open>
  \<^verbatim>\<open>SELECT * FROM expenses WHERE user_id = ? AND timestamp >= datetime('now', '-N days')
  ORDER BY timestamp DESC\<close>. The clock of SQLite is the argument \<open>now\<close>; it is
  UTC, as are the timestamps that \<^verbatim>\<open>CURRENT_TIMESTAMP\<close> stores.
\<close>

definition get_user_expenses :: "database \<Rightarrow> datetime \<Rightarrow> int \<Rightarrow> int \<Rightarrow> expense list" where
  "get_user_expenses db now uid days =
     sort_key (\<lambda>r. - total_seconds (timestamp r))
       (filter (\<lambda>r. user_id r = uid
                  \<and> total_seconds (timestamp r) \<ge> total_seconds now - days * 86400)
          (expenses db))"

text \<open>\<^verbatim>\<open>UPDATE expenses SET is_anomaly = ?, anomaly_score = ? WHERE id = ?\<close>\<close>

definition update_anomaly_status :: "database \<Rightarrow> int \<Rightarrow> bool \<Rightarrow> real \<Rightarrow> database" where
  "update_anomaly_status db expense_id anom score =
     db\<lparr>expenses :=
          map (\<lambda>r. if id' r = expense_id
                    then r\<lparr>is_anomaly := anom, anomaly_score := score\<rparr> else r)
            (expenses db)\<rparr>"

definition get_user_preferences :: "database \<Rightarrow> int \<Rightarrow> preferences option" where
  "get_user_preferences db uid = user_preferences db uid"

subsection \<open>Feature builder (prepare_features)\<close>

text \<open>
  \<^verbatim>\<open>pd.get_dummies\<close> makes one indicator column for every value that occurs in the
  frame it is given, the columns in sorted order.
\<close>

definition get_dummies :: "string list \<Rightarrow> real list list" where
  "get_dummies vals =
     (let levels = sort (remdups vals)
      in map (\<lambda>v. map (\<lambda>l. if v = l then 1 else 0) levels) vals)"

definition prepare_features :: "expense list \<Rightarrow> real list list" where
  "prepare_features df =
     (let cat_enc = get_dummies (map category df);
          pay_enc = get_dummies (map payment_method df)
      in map (\<lambda>(r, c, p).
                [amount r, of_int (hour (timestamp r)), of_int (day_of_week (timestamp r)),
                 of_int (day (timestamp r))] @ c @ p)
           (zip df (zip cat_enc pay_enc)))"

subsection \<open>StandardScaler\<close>

text \<open>
  The scaler keeps the mean and the population standard deviation of every column
  of the matrix it is fit on (a constant column is scaled by 1). Fitting needs at
  least one row. \<^verbatim>\<open>transform\<close> checks that the matrix it is given has as many
  columns as the one the scaler was fit on, and raises ValueError otherwise.
\<close>

record scaler =
  scaler_mean :: "real list"
  scaler_scale :: "real list"

definition mean :: "real list \<Rightarrow> real" where
  "mean xs = sum_list xs / real (length xs)"

definition std0 :: "real list \<Rightarrow> real" where
  "std0 xs = sqrt (sum_list (map (\<lambda>x. (x - mean xs)\<^sup>2) xs) / real (length xs))"

definition column :: "real list list \<Rightarrow> nat \<Rightarrow> real list" where
  "column X j = map (\<lambda>row. row ! j) X"

definition scaler_fit :: "real list list \<Rightarrow> py_error + scaler" where
  "scaler_fit X =
     (case X of
        [] \<Rightarrow> Inl ValueError
      | row # _ \<Rightarrow>
          Inr \<lparr>scaler_mean = map (\<lambda>j. mean (column X j)) [0..<length row],
               scaler_scale = map (\<lambda>j. let s = std0 (column X j) in if s = 0 then 1 else s)
                                [0..<length row]\<rparr>)"

definition scaler_transform :: "scaler \<Rightarrow> real list list \<Rightarrow> py_error + real list list" where
  "scaler_transform sc X =
     (if list_ex (\<lambda>row. length row \<noteq> length (scaler_mean sc)) X then Inl ValueError
      else Inr (map (\<lambda>row. map (\<lambda>(x, m, s). (x - m) / s)
                             (zip row (zip (scaler_mean sc) (scaler_scale sc)))) X))"

subsection \<open>IsolationForest\<close>

text \<open>
  A fitted forest: \<open>path_length x\<close> is the depth at which the sample \<open>x\<close> is
  isolated, averaged over the trees; \<open>c_factor\<close> is the average path length of an
  unsuccessful search among the samples of a tree, which normalises the depth;
  \<open>offset\<close> is the threshold that the contamination fixes when the forest is fit.
  \<^verbatim>\<open>score_samples\<close> is the opposite of the anomaly score \<open>2 powr (- E(h(x)) / c)\<close> of
  the isolation forest; \<^verbatim>\<open>predict\<close> is -1 where \<^verbatim>\<open>decision_function\<close> is negative.
\<close>

record fitted_forest =
  path_length :: "real list \<Rightarrow> real"
  c_factor :: real
  offset :: real

definition score_samples :: "fitted_forest \<Rightarrow> real list \<Rightarrow> real" where
  "score_samples m x = - (2 powr (- path_length m x / c_factor m))"

definition decision_function :: "fitted_forest \<Rightarrow> real list \<Rightarrow> real" where
  "decision_function m x = score_samples m x - offset m"

definition predict :: "fitted_forest \<Rightarrow> real list \<Rightarrow> int" where
  "predict m x = (if decision_function m x < 0 then - 1 else 1)"

text \<open>\<^verbatim>\<open>IsolationForest(contamination, random_state=42, n_estimators=100).fit\<close>\<close>

type_synonym forest_fit = "real list list \<Rightarrow> fitted_forest"

subsection \<open>Anomaly detector (anomaly_detector.py)\<close>

text \<open>
  The third component of the result of \<^verbatim>\<open>check_new_expense\<close>. The constructors stand
  for the five texts of the source, in the order in which they appear there; the
  arguments are the values the f-strings interpolate (category, amount, average).
\<close>

datatype explanation =
    NotEnoughData
  | ExpenseNotFound
  | SignificantlyHigher string real real
  | UnusuallyLow string real
  | UnusualPattern

definition explain :: "expense \<Rightarrow> expense list \<Rightarrow> explanation" where
  "explain e hist =
     (let amt = amount e;
          cat = category e;
          cat_hist = filter (\<lambda>r. category r = cat) hist
      in if length cat_hist \<ge> 3
         then (let avg = mean (map amount cat_hist);
                   std = std0 (map amount cat_hist)
               in if amt > avg + 2 * std then SignificantlyHigher cat amt avg
                  else if amt < avg - 2 * std then UnusuallyLow cat amt
                  else UnusualPattern)
         else UnusualPattern)"

text \<open>
  The two column assignments of \<^verbatim>\<open>detect_anomalies\<close>:
  \<^verbatim>\<open>df["is_anomaly"] = pred == -1\<close> and \<^verbatim>\<open>df["anomaly_score"] = -scores\<close>.
\<close>

definition with_scores :: "fitted_forest \<Rightarrow> expense list \<Rightarrow> real list list \<Rightarrow> expense list" where
  "with_scores m df Xs =
     (let pred = map (predict m) Xs;
          scores = map (score_samples m) Xs
      in map (\<lambda>(r, p, s). r\<lparr>is_anomaly := (p = - 1), anomaly_score := - s\<rparr>)
           (zip df (zip pred scores)))"

text \<open>The loop over \<^verbatim>\<open>df.iterrows()\<close>: one update of the store per row.\<close>

definition write_back :: "database \<Rightarrow> expense list \<Rightarrow> database" where
  "write_back db df =
     foldl (\<lambda>d r. update_anomaly_status d (id' r) (is_anomaly r) (anomaly_score r)) db df"

text \<open>
  \<^verbatim>\<open>detect_anomalies\<close> returns the store after the write-back and the flagged rows;
  below ten rows it returns the empty frame and leaves the store as it is.
\<close>

definition detect_anomalies ::
  "forest_fit \<Rightarrow> database \<Rightarrow> datetime \<Rightarrow> int \<Rightarrow> py_error + (database \<times> expense list)" where
  "detect_anomalies fit db now uid =
     (let df = get_user_expenses db now uid 90
      in if length df < 10 then Inr (db, [])
         else
           let X = prepare_features df
           in case scaler_fit X of
                Inl err \<Rightarrow> Inl err
              | Inr sc \<Rightarrow>
                  (case scaler_transform sc X of
                     Inl err \<Rightarrow> Inl err
                   | Inr Xs \<Rightarrow>
                       let m = fit Xs;
                           df1 = with_scores m df Xs
                       in Inr (write_back db df1, filter is_anomaly df1)))"

text \<open>
  \<^verbatim>\<open>check_new_expense\<close> returns the store and the triple
  \<^verbatim>\<open>(is_anomaly, score, explanation)\<close>. An exception leaves before the write-back,
  so an error carries no store.
\<close>

definition check_new_expense ::
  "forest_fit \<Rightarrow> database \<Rightarrow> datetime \<Rightarrow> int \<Rightarrow> int
     \<Rightarrow> py_error + (database \<times> bool \<times> real \<times> explanation)" where
  "check_new_expense fit db now uid expense_id =
     (let df = get_user_expenses db now uid 90
      in if length df < 10 then Inr (db, False, 0, NotEnoughData)
         else
           let new_df = filter (\<lambda>r. id' r = expense_id) df
           in if new_df = [] then Inr (db, False, 0, ExpenseNotFound)
              else
                let hist = filter (\<lambda>r. id' r \<noteq> expense_id) df;
                    X_hist = prepare_features hist;
                    X_new = prepare_features new_df
                in case scaler_fit X_hist of
                     Inl err \<Rightarrow> Inl err
                   | Inr sc \<Rightarrow>
                       (case scaler_transform sc X_hist of
                          Inl err \<Rightarrow> Inl err
                        | Inr Xs_hist \<Rightarrow>
                            (case scaler_transform sc X_new of
                               Inl err \<Rightarrow> Inl err
                             | Inr Xs_new \<Rightarrow>
                                 let m = fit Xs_hist;
                                     pred = predict m (hd Xs_new);
                                     score = - score_samples m (hd Xs_new);
                                     is_anom = (pred = - 1);
                                     db1 = update_anomaly_status db expense_id is_anom score;
                                     expl = explain (hd new_df) hist
                                 in Inr (db1, is_anom, score, expl))))"

subsection \<open>Configuration (config.py)\<close>

definition FORECAST_DAYS :: int where
  "FORECAST_DAYS = 30"

definition MIN_DATA_POINTS :: nat where
  "MIN_DATA_POINTS = 30"

subsection \<open>Forecasting engine (predictive_analyzer.py)\<close>

text \<open>
  \<^verbatim>\<open>_daily_series\<close>: the amounts summed per calendar date (\<^verbatim>\<open>.dt.date\<close>, here the
  ordinal of the date), one row per date that occurs, the dates ascending.
\<close>

definition daily_series :: "expense list \<Rightarrow> (int \<times> real) list" where
  "daily_series df =
     (let dates = sort (remdups (map (\<lambda>r. toordinal (timestamp r)) df))
      in map (\<lambda>d. (d, sum_list (map amount (filter (\<lambda>r. toordinal (timestamp r) = d) df))))
           dates)"

text \<open>
  Prophet. A fitted model gives, for a date, the triple \<^verbatim>\<open>(yhat, yhat_lower,
  yhat_upper)\<close>. \<^verbatim>\<open>fit\<close> raises ValueError on a series of fewer than two rows.
  \<^verbatim>\<open>make_future_dataframe(periods)\<close> is the dates of the history followed by the
  \<open>periods\<close> days after the last of them, and \<^verbatim>\<open>predict\<close> has one row per date of
  the frame it is given. The dates of Prophet's frames are timestamps (a
  \<^verbatim>\<open>datetime64\<close> column); they are written as the ordinal of their day.
\<close>

type_synonym fitted_prophet = "int \<Rightarrow> real \<times> real \<times> real"

type_synonym prophet = "(int \<times> real) list \<Rightarrow> fitted_prophet"

record prophet_row =
  ds :: int
  yhat :: real
  yhat_lower :: real
  yhat_upper :: real

definition prophet_fit :: "prophet \<Rightarrow> (int \<times> real) list \<Rightarrow> py_error + fitted_prophet" where
  "prophet_fit P ts = (if length ts < 2 then Inl ValueError else Inr (P ts))"

text \<open>\<^verbatim>\<open>ts["ds"].max()\<close>: the latest date of a series.\<close>

definition ds_max :: "(int \<times> real) list \<Rightarrow> int" where
  "ds_max ts = Max (set (map fst ts))"

definition make_future_dataframe :: "(int \<times> real) list \<Rightarrow> int \<Rightarrow> int list" where
  "make_future_dataframe ts periods =
     (let last_date = ds_max ts
      in map fst ts @ map (\<lambda>k. last_date + k) [1..periods])"

definition prophet_predict :: "fitted_prophet \<Rightarrow> int list \<Rightarrow> prophet_row list" where
  "prophet_predict m future =
     map (\<lambda>d. case m d of (y, lo, up) \<Rightarrow>
                 \<lparr>ds = d, yhat = y, yhat_lower = lo, yhat_upper = up\<rparr>) future"

text \<open>
  A scalar that a column of dates is compared with: a \<^verbatim>\<open>datetime.date\<close>, which is
  what \<^verbatim>\<open>.dt.date\<close> puts into the series of \<^verbatim>\<open>_daily_series\<close>, or a timestamp.
  \<^verbatim>\<open>column > scalar\<close> on a \<^verbatim>\<open>datetime64\<close> column compares with a timestamp and
  raises TypeError (invalid comparison between \<^verbatim>\<open>datetime64[ns]\<close> and \<^verbatim>\<open>date\<close>)
  when the scalar is a \<^verbatim>\<open>datetime.date\<close>.
\<close>

datatype date_scalar = PyDate int | PyTimestamp int

definition datetime64_gt :: "int list \<Rightarrow> date_scalar \<Rightarrow> py_error + bool list" where
  "datetime64_gt col v =
     (case v of
        PyTimestamp t \<Rightarrow> Inr (map (\<lambda>d. d > t) col)
      | PyDate d \<Rightarrow> Inl TypeError)"

text \<open>An entry of \<^verbatim>\<open>out\<close>; the date stands for its \<^verbatim>\<open>%Y-%m-%d\<close> text.\<close>

record forecast_point =
  fp_date :: int
  fp_amount :: real
  lower_bound :: real
  upper_bound :: real

record forecast_result =
  success :: bool
  message :: "string option"
  forecast_points :: "forecast_point list"
  total_predicted :: "real option"
  model_name :: "string option"

definition save_forecast :: "database \<Rightarrow> int \<Rightarrow> forecast_point list \<Rightarrow> database" where
  "save_forecast db uid fs =
     db\<lparr>forecasts := forecasts db
          @ map (\<lambda>f. \<lparr>fc_user_id = uid, forecast_date = fp_date f,
                       predicted_amount = fp_amount f, fc_category = ''total''\<rparr>) fs\<rparr>"

text \<open>
  The loop that builds \<^verbatim>\<open>out\<close>: one entry per row of the frame it runs over, each of
  the three values clipped at 0 by \<^verbatim>\<open>max(0.0, .)\<close>.
\<close>

definition forecast_point_of :: "prophet_row \<Rightarrow> forecast_point" where
  "forecast_point_of r =
     \<lparr>fp_date = ds r,
      fp_amount = max 0 (yhat r),
      lower_bound = max 0 (yhat_lower r),
      upper_bound = max 0 (yhat_upper r)\<rparr>"

definition forecast_out :: "prophet_row list \<Rightarrow> forecast_point list" where
  "forecast_out future_fcst = map forecast_point_of future_fcst"

text \<open>
  \<^verbatim>\<open>forecast_expenses_prophet\<close>. The mask of \<^verbatim>\<open>fcst[fcst["ds"] > ts["ds"].max()]\<close>
  compares Prophet's column of timestamps with the latest \<^verbatim>\<open>datetime.date\<close> of the
  daily series.
\<close>

definition forecast_expenses_prophet ::
  "prophet \<Rightarrow> database \<Rightarrow> datetime \<Rightarrow> int \<Rightarrow> py_error + (database \<times> forecast_result)" where
  "forecast_expenses_prophet P db now uid =
     (let df = get_user_expenses db now uid 90
      in if length df < MIN_DATA_POINTS
         then Inr (db, \<lparr>success = False,
                        message = Some ''Not enough data for forecasting'',
                        forecast_points = [], total_predicted = None, model_name = None\<rparr>)
         else
           let ts = daily_series df
           in case prophet_fit P ts of
                Inl err \<Rightarrow> Inl err
              | Inr m \<Rightarrow>
                  let future = make_future_dataframe ts FORECAST_DAYS;
                      fcst = prophet_predict m future
                  in case datetime64_gt (map ds fcst) (PyDate (ds_max ts)) of
                       Inl err \<Rightarrow> Inl err
                     | Inr is_future \<Rightarrow>
                         let future_fcst = map fst (filter snd (zip fcst is_future));
                             out = forecast_out future_fcst
                         in Inr (save_forecast db uid out,
                                 \<lparr>success = True, message = None, forecast_points = out,
                                  total_predicted = Some (sum_list (map fp_amount out)),
                                  model_name = Some ''Prophet''\<rparr>))"

subsection \<open>Budget projector (detect_budget_overrun)\<close>

record budget_projection =
  current_spending :: real
  projected_total :: real
  budget_limit :: real
  will_exceed :: bool
  excess_amount :: real
  days_remaining :: int

text \<open>
  \<^verbatim>\<open>not prefs or not prefs.get("monthly_income")\<close> holds when there is no row, when
  the income is NULL and when it is 0. The frame summed is
  \<^verbatim>\<open>get_user_expenses(user_id, days=30)\<close>, whose window SQLite cuts at its own
  clock \<open>now\<close> (UTC); the day of the month and the days that remain are read from
  \<^verbatim>\<open>datetime.now()\<close>, the local time \<open>today\<close> of the host.
\<close>

definition detect_budget_overrun ::
  "database \<Rightarrow> datetime \<Rightarrow> datetime \<Rightarrow> int \<Rightarrow> budget_projection option" where
  "detect_budget_overrun db now today uid =
     (case get_user_preferences db uid of
        None \<Rightarrow> None
      | Some prefs \<Rightarrow>
          (case monthly_income prefs of
             None \<Rightarrow> None
           | Some income \<Rightarrow>
               if income = 0 then None
               else
                 let df = get_user_expenses db now uid 30;
                     current_total = (if df \<noteq> [] then sum_list (map amount df) else 0);
                     days_passed = max 1 (day today);
                     last_day = add_days ((add_days (today\<lparr>day := 28\<rparr>) 4)\<lparr>day := 1\<rparr>) (- 1);
                     remaining = delta_days last_day today;
                     daily_avg = current_total / of_int days_passed;
                     projected = current_total + daily_avg * of_int remaining;
                     limit = income * 0.5
                 in Some \<lparr>current_spending = current_total,
                          projected_total = projected,
                          budget_limit = limit,
                          will_exceed = (projected > limit),
                          excess_amount = max 0 (projected - limit),
                          days_remaining = remaining\<rparr>))"


subsection \<open>Sample stores and estimators\<close>

text \<open>
  Concrete stores, clocks and fitted estimators at which the functions are evaluated.
\<close>

text \<open>Noon of a calendar day.\<close>

definition at_noon :: "int \<Rightarrow> int \<Rightarrow> int \<Rightarrow> datetime" where
  "at_noon y m d = \<lparr>year = y, month = m, day = d, hour = 12, minute = 0, second = 0\<rparr>"

text \<open>A row of user 1 as \<^verbatim>\<open>add_expense\<close> stores it: not flagged, score 0.\<close>

definition mk_expense :: "int \<Rightarrow> real \<Rightarrow> string \<Rightarrow> string \<Rightarrow> datetime \<Rightarrow> expense" where
  "mk_expense i amt cat pay t =
     \<lparr>id' = i, user_id = 1, amount = amt, category = cat, payment_method = pay,
      description = None, timestamp = t, is_anomaly = False, anomaly_score = 0\<rparr>"

text \<open>The clock of the examples: 2024-06-10 18:00:00.\<close>

definition now_ten :: datetime where
  "now_ten = \<lparr>year = 2024, month = 6, day = 10, hour = 18, minute = 0, second = 0\<rparr>"

text \<open>Ten rows of user 1, one per day from 2024-06-01, all of one category and one
  payment method.\<close>

definition db_ten :: database where
  "db_ten = \<lparr>expenses = map (\<lambda>i. mk_expense i 100 ''food'' ''UPI'' (at_noon 2024 6 i))
                           [1, 2, 3, 4, 5, 6, 7, 8, 9, 10],
             user_preferences = Map.empty, forecasts = []\<rparr>"

text \<open>The same ten rows, the last one of another category.\<close>

definition db_mixed :: database where
  "db_mixed = \<lparr>expenses = map (\<lambda>i. mk_expense i 100 ''food'' ''UPI'' (at_noon 2024 6 i))
                             [1, 2, 3, 4, 5, 6, 7, 8, 9]
                           @ [mk_expense 10 100 ''travel'' ''UPI'' (at_noon 2024 6 10)],
               user_preferences = Map.empty, forecasts = []\<rparr>"

text \<open>A user with three rows.\<close>

definition db_three :: database where
  "db_three = \<lparr>expenses = map (\<lambda>i. mk_expense i 100 ''food'' ''UPI'' (at_noon 2024 6 i))
                             [1, 2, 3],
               user_preferences = Map.empty, forecasts = []\<rparr>"

text \<open>A forest that isolates every sample at depth 0: every sample has the score 1
  and is flagged.\<close>

definition flag_all :: forest_fit where
  "flag_all Xs = \<lparr>path_length = (\<lambda>x. 0), c_factor = 1, offset = 0\<rparr>"

text \<open>A category history with the amounts 100, 100, 100, 100.\<close>

definition hist_hundreds :: "expense list" where
  "hist_hundreds = map (\<lambda>i. mk_expense i 100 ''food'' ''UPI'' (at_noon 2024 6 i)) [1, 2, 3, 4]"

text \<open>A user whose declared monthly income is 0.\<close>

definition db_zero_income :: database where
  "db_zero_income =
     \<lparr>expenses = [mk_expense 1 20000 ''rent'' ''UPI'' (at_noon 2024 6 5)],
      user_preferences = [1 \<mapsto> \<lparr>monthly_income = Some 0, savings_goal = None,
                                  risk_tolerance = None, notification_enabled = True\<rparr>],
      forecasts = []\<rparr>"

text \<open>The clock 2024-06-30 18:00:00.\<close>

definition now_thirty :: datetime where
  "now_thirty = \<lparr>year = 2024, month = 6, day = 30, hour = 18, minute = 0, second = 0\<rparr>"

text \<open>Thirty rows of user 1, one per day of June 2024.\<close>

definition db_thirty :: database where
  "db_thirty = \<lparr>expenses = map (\<lambda>i. mk_expense i 100 ''food'' ''UPI'' (at_noon 2024 6 i)) [1..30],
                user_preferences = Map.empty, forecasts = []\<rparr>"

text \<open>Thirty rows of user 1, all of 2024-06-30.\<close>

definition db_sameday :: database where
  "db_sameday = \<lparr>expenses = map (\<lambda>i. mk_expense i 100 ''food'' ''UPI'' (at_noon 2024 6 30)) [1..30],
                 user_preferences = Map.empty, forecasts = []\<rparr>"

text \<open>Income 60000; 20000 spent on 2024-06-05 and 10000 on 2024-05-20.\<close>

definition db_budget :: database where
  "db_budget =
     \<lparr>expenses = [mk_expense 1 20000 ''rent'' ''UPI'' (at_noon 2024 6 5),
                  mk_expense 2 10000 ''travel'' ''UPI'' (at_noon 2024 5 20)],
      user_preferences = [1 \<mapsto> \<lparr>monthly_income = Some 60000, savings_goal = None,
                                  risk_tolerance = None, notification_enabled = True\<rparr>],
      forecasts = []\<rparr>"

text \<open>The same user with the row of June only.\<close>

definition db_budget_june :: database where
  "db_budget_june = db_budget\<lparr>expenses := [mk_expense 1 20000 ''rent'' ''UPI'' (at_noon 2024 6 5)]\<rparr>"



section \<open>Properties\<close>

subsection \<open>Feature matrix and scaler\<close>

text \<open>
  The feature matrix is rectangular: its width is 4 plus the number of categories
  plus the number of payment methods that occur in the frame. Fitting on a frame
  that is not empty succeeds, and a transform succeeds exactly on matrices of the
  width the scaler was fit on.
\<close>

lemma length_get_dummies: "length (get_dummies vs) = length vs"
  by (simp add: get_dummies_def)

lemma get_dummies_width: "row \<in> set (get_dummies vs) \<Longrightarrow> length row = length (remdups vs)"
  by (auto simp: get_dummies_def)

lemma length_prepare_features: "length (prepare_features df) = length df"
  by (simp add: prepare_features_def length_get_dummies)

lemma prepare_features_width:
  assumes "row \<in> set (prepare_features df)"
  shows "length row = 4 + length (remdups (map category df))
           + length (remdups (map payment_method df))"
proof -
  from assms obtain r c p where
    mem: "(r, c, p) \<in> set (zip df (zip (get_dummies (map category df))
                                      (get_dummies (map payment_method df))))"
    and row: "row = [amount r, of_int (hour (timestamp r)),
                     of_int (day_of_week (timestamp r)), of_int (day (timestamp r))] @ c @ p"
    by (auto simp: prepare_features_def)
  from mem have "(c, p) \<in> set (zip (get_dummies (map category df))
                                   (get_dummies (map payment_method df)))"
    by (rule set_zip_rightD)
  then have "c \<in> set (get_dummies (map category df))"
    and "p \<in> set (get_dummies (map payment_method df))"
    by (auto dest: set_zip_leftD set_zip_rightD)
  then show ?thesis
    using row by (simp add: get_dummies_width)
qed

lemma scaler_fit_Inr:
  assumes "X \<noteq> []"
  shows "\<exists>sc. scaler_fit X = Inr sc \<and> length (scaler_mean sc) = length (hd X)"
  using assms by (cases X) (simp_all add: scaler_fit_def)

lemma scaler_transform_Inr:
  assumes "\<And>row. row \<in> set X \<Longrightarrow> length row = length (scaler_mean sc)"
  shows "\<exists>Xs. scaler_transform sc X = Inr Xs \<and> length Xs = length X"
  using assms by (simp add: scaler_transform_def list_ex_iff)

lemma scaler_transform_Inl:
  assumes "row \<in> set X" and "length row \<noteq> length (scaler_mean sc)"
  shows "scaler_transform sc X = Inl ValueError"
  using assms by (auto simp: scaler_transform_def list_ex_iff)

lemma fit_transform_Inr:
  assumes "df \<noteq> []"
  shows "\<exists>sc Xs. scaler_fit (prepare_features df) = Inr sc
           \<and> length (scaler_mean sc) = 4 + length (remdups (map category df))
                 + length (remdups (map payment_method df))
           \<and> scaler_transform sc (prepare_features df) = Inr Xs
           \<and> length Xs = length df"
proof -
  let ?X = "prepare_features df"
  from assms have ne: "?X \<noteq> []"
    using length_prepare_features [of df] by (metis length_0_conv)
  then obtain sc where sc: "scaler_fit ?X = Inr sc"
    and len: "length (scaler_mean sc) = length (hd ?X)"
    using scaler_fit_Inr by blast
  from ne have "hd ?X \<in> set ?X" by simp
  then have w: "length (scaler_mean sc) = 4 + length (remdups (map category df))
                 + length (remdups (map payment_method df))"
    using len prepare_features_width by simp
  then have "\<And>row. row \<in> set ?X \<Longrightarrow> length row = length (scaler_mean sc)"
    by (simp add: prepare_features_width)
  then obtain Xs where "scaler_transform sc ?X = Inr Xs" and "length Xs = length ?X"
    using scaler_transform_Inr by blast
  with sc w show ?thesis
    by (simp add: length_prepare_features)
qed

subsection \<open>Anomaly detector\<close>

text \<open>
  What the two entry points return, case by case.
\<close>

lemma explain_scoring: "explain e hist \<noteq> NotEnoughData" "explain e hist \<noteq> ExpenseNotFound"
  by (simp_all add: explain_def Let_def)

lemma score_samples_nonpos: "score_samples m x \<le> 0"
  by (simp add: score_samples_def)

lemma length_with_scores:
  "length Xs = length df \<Longrightarrow> length (with_scores m df Xs) = length df"
  by (simp add: with_scores_def)

lemma with_scores_nonneg:
  assumes "r \<in> set (with_scores m df Xs)"
  shows "0 \<le> anomaly_score r"
proof -
  from assms obtain r0 p s where
    mem: "(r0, p, s) \<in> set (zip df (zip (map (predict m) Xs) (map (score_samples m) Xs)))"
    and r: "r = r0\<lparr>is_anomaly := (p = - 1), anomaly_score := - s\<rparr>"
    by (auto simp: with_scores_def)
  from mem have "(p, s) \<in> set (zip (map (predict m) Xs) (map (score_samples m) Xs))"
    by (rule set_zip_rightD)
  then have "s \<in> set (map (score_samples m) Xs)"
    by (rule set_zip_rightD)
  then have "s \<le> 0"
    by (auto simp: score_samples_nonpos)
  with r show ?thesis by simp
qed

lemma detect_anomalies_scored:
  assumes "\<not> length (get_user_expenses db now uid 90) < 10"
  shows "\<exists>Xs. length Xs = length (get_user_expenses db now uid 90)
           \<and> detect_anomalies fit db now uid =
               Inr (write_back db (with_scores (fit Xs) (get_user_expenses db now uid 90) Xs),
                    filter is_anomaly
                      (with_scores (fit Xs) (get_user_expenses db now uid 90) Xs))"
proof -
  let ?df = "get_user_expenses db now uid 90"
  from assms have "?df \<noteq> []" by auto
  then obtain sc Xs where "scaler_fit (prepare_features ?df) = Inr sc"
    and "scaler_transform sc (prepare_features ?df) = Inr Xs"
    and "length Xs = length ?df"
    using fit_transform_Inr by blast
  with assms have "length Xs = length ?df
      \<and> detect_anomalies fit db now uid =
          Inr (write_back db (with_scores (fit Xs) ?df Xs),
               filter is_anomaly (with_scores (fit Xs) ?df Xs))"
    by (simp add: detect_anomalies_def Let_def)
  then show ?thesis by (rule exI)
qed

lemma detect_anomalies_returns:
  "\<exists>db1 flagged. detect_anomalies fit db now uid = Inr (db1, flagged)"
proof (cases "length (get_user_expenses db now uid 90) < 10")
  case True
  then show ?thesis by (simp add: detect_anomalies_def)
next
  case False
  then show ?thesis using detect_anomalies_scored [OF False, of fit] by blast
qed

lemma update_anomaly_status_rows:
  assumes "0 \<le> s" and "r \<in> set (expenses (update_anomaly_status d i a s))"
  shows "r \<in> set (expenses d) \<or> 0 \<le> anomaly_score r"
  using assms by (auto simp: update_anomaly_status_def split: if_splits)

lemma write_back_rows:
  assumes "\<And>r. r \<in> set df \<Longrightarrow> 0 \<le> anomaly_score r"
    and "\<And>r. r \<in> set (expenses d) \<Longrightarrow> r \<in> set (expenses db) \<or> 0 \<le> anomaly_score r"
    and "r \<in> set (expenses (write_back d df))"
  shows "r \<in> set (expenses db) \<or> 0 \<le> anomaly_score r"
  using assms
proof (induction df arbitrary: d)
  case Nil
  then show ?case by (simp add: write_back_def)
next
  case (Cons x xs)
  let ?d1 = "update_anomaly_status d (id' x) (is_anomaly x) (anomaly_score x)"
  have x: "0 \<le> anomaly_score x" using Cons.prems(1) by simp
  have step: "\<And>r. r \<in> set (expenses ?d1) \<Longrightarrow> r \<in> set (expenses db) \<or> 0 \<le> anomaly_score r"
    using update_anomaly_status_rows [OF x] Cons.prems(2) by blast
  have "r \<in> set (expenses (write_back ?d1 xs))"
    using Cons.prems(3) by (simp add: write_back_def)
  then show ?case
    using Cons.IH [of ?d1] Cons.prems(1) step by simp
qed

lemma check_new_expense_store:
  assumes "check_new_expense fit db now uid eid = Inr (db1, a, s, e)"
  shows "(e \<in> {NotEnoughData, ExpenseNotFound} \<and> db1 = db \<and> \<not> a \<and> s = 0)
       \<or> (e \<notin> {NotEnoughData, ExpenseNotFound} \<and> 0 \<le> s
            \<and> db1 = update_anomaly_status db eid a s)"
  using assms explain_scoring
  by (auto simp: check_new_expense_def Let_def score_samples_nonpos
           split: if_splits sum.splits)

lemma check_new_expense_enough:
  assumes "\<not> length (get_user_expenses db now uid 90) < 10"
  shows "check_new_expense fit db now uid eid \<noteq> Inr (db1, a, s, NotEnoughData)"
  using assms explain_scoring
  by (auto simp: check_new_expense_def Let_def split: if_splits sum.splits)

lemma check_new_expense_scored:
  assumes "\<not> length (get_user_expenses db now uid 90) < 10"
    and "filter (\<lambda>r. id' r = eid) (get_user_expenses db now uid 90) = new_df"
    and "filter (\<lambda>r. id' r \<noteq> eid) (get_user_expenses db now uid 90) = hist"
    and "new_df \<noteq> []" and "hist \<noteq> []"
    and "length (remdups (map category hist)) + length (remdups (map payment_method hist))
         = length (remdups (map category new_df)) + length (remdups (map payment_method new_df))"
  shows "\<exists>Xs x. check_new_expense fit db now uid eid =
           Inr (update_anomaly_status db eid (predict (fit Xs) x = - 1)
                  (- score_samples (fit Xs) x),
                predict (fit Xs) x = - 1, - score_samples (fit Xs) x,
                explain (hd new_df) hist)"
proof -
  obtain sc Xs where sc: "scaler_fit (prepare_features hist) = Inr sc"
    and w: "length (scaler_mean sc) = 4 + length (remdups (map category hist))
                 + length (remdups (map payment_method hist))"
    and Xs: "scaler_transform sc (prepare_features hist) = Inr Xs"
    using fit_transform_Inr [OF assms(5)] by blast
  have "\<And>row. row \<in> set (prepare_features new_df) \<Longrightarrow> length row = length (scaler_mean sc)"
    using w assms(6) by (simp add: prepare_features_width)
  then obtain Xn where Xn: "scaler_transform sc (prepare_features new_df) = Inr Xn"
    using scaler_transform_Inr by blast
  have "check_new_expense fit db now uid eid =
           Inr (update_anomaly_status db eid (predict (fit Xs) (hd Xn) = - 1)
                  (- score_samples (fit Xs) (hd Xn)),
                predict (fit Xs) (hd Xn) = - 1, - score_samples (fit Xs) (hd Xn),
                explain (hd new_df) hist)"
    using assms(1-4) sc Xs Xn by (simp add: check_new_expense_def Let_def)
  then show ?thesis by blast
qed

lemma check_new_expense_raises:
  assumes "\<not> length (get_user_expenses db now uid 90) < 10"
    and "filter (\<lambda>r. id' r = eid) (get_user_expenses db now uid 90) = new_df"
    and "filter (\<lambda>r. id' r \<noteq> eid) (get_user_expenses db now uid 90) = hist"
    and "new_df \<noteq> []" and "hist \<noteq> []"
    and "length (remdups (map category hist)) + length (remdups (map payment_method hist))
         \<noteq> length (remdups (map category new_df)) + length (remdups (map payment_method new_df))"
  shows "check_new_expense fit db now uid eid = Inl ValueError"
proof -
  obtain sc Xs where sc: "scaler_fit (prepare_features hist) = Inr sc"
    and w: "length (scaler_mean sc) = 4 + length (remdups (map category hist))
                 + length (remdups (map payment_method hist))"
    and Xs: "scaler_transform sc (prepare_features hist) = Inr Xs"
    using fit_transform_Inr [OF assms(5)] by blast
  from assms(4) have ne: "prepare_features new_df \<noteq> []"
    using length_prepare_features [of new_df] by (metis length_0_conv)
  then have mem: "hd (prepare_features new_df) \<in> set (prepare_features new_df)" by simp
  then have "length (hd (prepare_features new_df)) \<noteq> length (scaler_mean sc)"
    using w assms(6) by (simp add: prepare_features_width)
  with mem have "scaler_transform sc (prepare_features new_df) = Inl ValueError"
    by (rule scaler_transform_Inl)
  then show ?thesis
    using assms(1-4) sc Xs by (simp add: check_new_expense_def Let_def)
qed

subsection \<open>The sample stores\<close>

text \<open>
  The 90-day windows of the sample stores, newest row first, and the sample forest.
\<close>

lemmas calendar_defs =
  total_seconds_def toordinal_def ymd2ord_def days_before_year_def
  days_before_month_def DAYS_BEFORE_MONTH_def DAYS_IN_MONTH_def is_leap_def

lemma total_seconds_june:
  "total_seconds (at_noon 2024 6 d) = (739037 + d) * 86400 + 43200"
  by (simp add: calendar_defs at_noon_def)

lemma total_seconds_now_ten: "total_seconds now_ten = 739047 * 86400 + 64800"
  by (simp add: calendar_defs now_ten_def)

lemma window_ten:
  "get_user_expenses db_ten now_ten 1 90 =
     map (\<lambda>i. mk_expense i 100 ''food'' ''UPI'' (at_noon 2024 6 i))
       [10, 9, 8, 7, 6, 5, 4, 3, 2, 1]"
  by (simp add: get_user_expenses_def db_ten_def mk_expense_def total_seconds_june
      total_seconds_now_ten)

lemma window_mixed:
  "get_user_expenses db_mixed now_ten 1 90 =
     mk_expense 10 100 ''travel'' ''UPI'' (at_noon 2024 6 10)
     # map (\<lambda>i. mk_expense i 100 ''food'' ''UPI'' (at_noon 2024 6 i))
         [9, 8, 7, 6, 5, 4, 3, 2, 1]"
  by (simp add: get_user_expenses_def db_mixed_def mk_expense_def total_seconds_june
      total_seconds_now_ten)

lemma window_three:
  "get_user_expenses db_three now_ten 1 90 =
     map (\<lambda>i. mk_expense i 100 ''food'' ''UPI'' (at_noon 2024 6 i)) [3, 2, 1]"
  by (simp add: get_user_expenses_def db_three_def mk_expense_def total_seconds_june
      total_seconds_now_ten)

lemma flag_all_predict: "predict (flag_all Xs) x = - 1"
  by (simp add: predict_def decision_function_def score_samples_def flag_all_def)

lemma flag_all_score: "score_samples (flag_all Xs) x = - 1"
  by (simp add: score_samples_def flag_all_def)

lemma flag_all_flags:
  assumes "r \<in> set (with_scores (flag_all Xs) df Ys)"
  shows "is_anomaly r"
proof -
  from assms obtain r0 p s where
    mem: "(r0, p, s) \<in> set (zip df (zip (map (predict (flag_all Xs)) Ys)
                                        (map (score_samples (flag_all Xs)) Ys)))"
    and r: "r = r0\<lparr>is_anomaly := (p = - 1), anomaly_score := - s\<rparr>"
    by (auto simp: with_scores_def)
  from mem have "(p, s) \<in> set (zip (map (predict (flag_all Xs)) Ys)
                                   (map (score_samples (flag_all Xs)) Ys))"
    by (rule set_zip_rightD)
  then have "p \<in> set (map (predict (flag_all Xs)) Ys)"
    by (rule set_zip_leftD)
  then have "p = - 1"
    by (auto simp: flag_all_predict)
  with r show ?thesis by simp
qed

lemma check_ten:
  "check_new_expense flag_all db_ten now_ten 1 1 =
     Inr (update_anomaly_status db_ten 1 True 1, True, 1, UnusualPattern)"
proof -
  let ?df = "get_user_expenses db_ten now_ten 1 90"
  let ?new = "[mk_expense 1 100 ''food'' ''UPI'' (at_noon 2024 6 1)]"
  let ?hist = "map (\<lambda>i. mk_expense i 100 ''food'' ''UPI'' (at_noon 2024 6 i))
                 [10, 9, 8, 7, 6, 5, 4, 3, 2]"
  have n: "\<not> length ?df < 10"
    by (simp add: window_ten)
  have new: "filter (\<lambda>r. id' r = 1) ?df = ?new"
    by (simp add: window_ten mk_expense_def)
  have hist: "filter (\<lambda>r. id' r \<noteq> 1) ?df = ?hist"
    by (simp add: window_ten mk_expense_def)
  have w: "length (remdups (map category ?hist)) + length (remdups (map payment_method ?hist))
         = length (remdups (map category ?new)) + length (remdups (map payment_method ?new))"
    by (simp add: mk_expense_def)
  have e: "explain (hd ?new) ?hist = UnusualPattern"
    by (simp add: explain_def mk_expense_def mean_def std0_def)
  have ne: "?new \<noteq> []" "?hist \<noteq> []"
    by simp_all
  obtain Xs x where "check_new_expense flag_all db_ten now_ten 1 1 =
           Inr (update_anomaly_status db_ten 1 (predict (flag_all Xs) x = - 1)
                  (- score_samples (flag_all Xs) x),
                predict (flag_all Xs) x = - 1, - score_samples (flag_all Xs) x,
                explain (hd ?new) ?hist)"
    using check_new_expense_scored [OF n new hist ne w, of flag_all] by blast
  then show ?thesis
    unfolding e flag_all_predict flag_all_score by simp
qed

subsection \<open>Claims on the anomaly detector\<close>

text \<open>
  C1 fails on the code. The history of the target (nine rows) has the categories
  food and travel, so its feature matrix has 4 + 2 + 1 columns; the frame of the
  target alone has 4 + 1 + 1. \<^verbatim>\<open>scaler.transform(X_new)\<close> raises ValueError, whatever
  the forest: \<^verbatim>\<open>check_new_expense\<close> does not return a triple.
\<close>

theorem vocabulary_mismatch_raises:
  "check_new_expense fit db_mixed now_ten 1 1 = Inl ValueError"
proof -
  let ?df = "get_user_expenses db_mixed now_ten 1 90"
  let ?new = "[mk_expense 1 100 ''food'' ''UPI'' (at_noon 2024 6 1)]"
  let ?hist = "mk_expense 10 100 ''travel'' ''UPI'' (at_noon 2024 6 10)
     # map (\<lambda>i. mk_expense i 100 ''food'' ''UPI'' (at_noon 2024 6 i))
         [9, 8, 7, 6, 5, 4, 3, 2]"
  have n: "\<not> length ?df < 10"
    by (simp add: window_mixed)
  have new: "filter (\<lambda>r. id' r = 1) ?df = ?new"
    by (simp add: window_mixed mk_expense_def)
  have hist: "filter (\<lambda>r. id' r \<noteq> 1) ?df = ?hist"
    by (simp add: window_mixed mk_expense_def)
  have ne: "?new \<noteq> []" "?hist \<noteq> []"
    by simp_all
  have w: "length (remdups (map category ?hist)) + length (remdups (map payment_method ?hist))
         \<noteq> length (remdups (map category ?new)) + length (remdups (map payment_method ?new))"
    by (simp add: mk_expense_def)
  show ?thesis
    using check_new_expense_raises [OF n new hist ne w] .
qed

text \<open>
  C2, as the code has it. \<^verbatim>\<open>check_new_expense\<close> returns the insufficient-data
  result (no anomaly, score 0, store unchanged) exactly when the 90-day window holds
  fewer than 10 transactions of the user, the transaction being checked counted among
  them.
\<close>

theorem insufficient_data_iff:
  "check_new_expense fit db now uid eid = Inr (db, False, 0, NotEnoughData)
   \<longleftrightarrow> length (get_user_expenses db now uid 90) < 10"
proof
  assume "check_new_expense fit db now uid eid = Inr (db, False, 0, NotEnoughData)"
  then show "length (get_user_expenses db now uid 90) < 10"
    using check_new_expense_enough by blast
next
  assume "length (get_user_expenses db now uid 90) < 10"
  then show "check_new_expense fit db now uid eid = Inr (db, False, 0, NotEnoughData)"
    by (simp add: check_new_expense_def)
qed

text \<open>
  C2 at a window of three transactions (insufficient data) and at a window of
  ten (not the insufficient-data result).
\<close>

theorem insufficient_data_iff_witness:
  "check_new_expense flag_all db_three now_ten 1 3 = Inr (db_three, False, 0, NotEnoughData)
   \<and> check_new_expense flag_all db_ten now_ten 1 3 \<noteq> Inr (db_ten, False, 0, NotEnoughData)"
  using insufficient_data_iff [of flag_all db_three now_ten 1 3]
    insufficient_data_iff [of flag_all db_ten now_ten 1 3]
  by (simp add: window_three window_ten)

text \<open>
  C2 as stated fails: with exactly 10 transactions in the window, of which one is
  the target and 9 are prior, the gate \<^verbatim>\<open>len(df) < 10\<close> passes and the target is
  scored on a model fit on the 9 others (for every forest, by
  \<open>check_new_expense_enough\<close>); with the sample forest it is reported as an anomaly.
\<close>

theorem nine_prior_counterexample:
  "length (get_user_expenses db_ten now_ten 1 90) = 10
   \<and> length (filter (\<lambda>r. id' r \<noteq> 1) (get_user_expenses db_ten now_ten 1 90)) = 9
   \<and> check_new_expense flag_all db_ten now_ten 1 1
       = Inr (update_anomaly_status db_ten 1 True 1, True, 1, UnusualPattern)"
  by (simp add: window_ten check_ten mk_expense_def)

text \<open>
  C4, as the code has it. When the history of the category of the expense has the
  amounts 100, 100, 100, 100, \<^verbatim>\<open>_explain\<close> returns the "significantly higher"
  message for every amount strictly above 100 (so for 100.01 and for 500), the
  "unusually low" message for every amount strictly below 100, and the generic message
  for the amount 100: there is no separate treatment of a standard deviation of 0.
\<close>

theorem explain_constant_history:
  assumes "map amount (filter (\<lambda>r. category r = category e) hist) = [100, 100, 100, 100]"
  shows "explain e hist =
           (if amount e > 100 then SignificantlyHigher (category e) (amount e) 100
            else if amount e < 100 then UnusuallyLow (category e) (amount e)
            else UnusualPattern)"
proof -
  have "length (map amount (filter (\<lambda>r. category r = category e) hist)) = 4"
    by (simp add: assms)
  then have len: "length (filter (\<lambda>r. category r = category e) hist) = 4"
    by simp
  show ?thesis
    by (simp add: explain_def Let_def len assms mean_def std0_def)
qed

text \<open>
  C4 at the amounts 500 (significantly higher) and 100 (generic message).
\<close>

theorem explain_constant_history_witness:
  "map amount (filter (\<lambda>r. category r = ''food'') hist_hundreds) = [100, 100, 100, 100]
   \<and> explain (mk_expense 5 500 ''food'' ''UPI'' (at_noon 2024 6 5)) hist_hundreds
       = SignificantlyHigher ''food'' 500 100
   \<and> explain (mk_expense 5 100 ''food'' ''UPI'' (at_noon 2024 6 5)) hist_hundreds
       = UnusualPattern"
proof -
  have h: "map amount (filter (\<lambda>r. category r = category
               (mk_expense 5 a ''food'' ''UPI'' (at_noon 2024 6 5))) hist_hundreds)
           = [100, 100, 100, 100]" for a
    by (simp add: hist_hundreds_def mk_expense_def)
  show ?thesis
    using explain_constant_history [OF h [of 500]] explain_constant_history [OF h [of 100]] h [of 0]
    by (simp add: mk_expense_def)
qed

text \<open>
  C4 as stated fails: on the category history 100, 100, 100, 100 (mean 100,
  population standard deviation 0) the amount 100.01 exceeds mean + 2 * sigma = 100
  strictly, and \<^verbatim>\<open>_explain\<close> returns the "significantly higher" message.
\<close>

theorem explain_sigma_zero_counterexample:
  "mean (map amount hist_hundreds) = 100 \<and> std0 (map amount hist_hundreds) = 0
   \<and> explain (mk_expense 5 (10001 / 100) ''food'' ''UPI'' (at_noon 2024 6 5)) hist_hundreds
       = SignificantlyHigher ''food'' (10001 / 100) 100"
  by (simp add: explain_def hist_hundreds_def mk_expense_def mean_def std0_def)

text \<open>
  C5. Every score that \<^verbatim>\<open>detect_anomalies\<close> returns in a flagged row and every
  score that \<^verbatim>\<open>check_new_expense\<close> returns is at least 0, and every row of the store
  after either call is a row of the store before it or holds a score that is at least
  0. The score is the negation of \<^verbatim>\<open>score_samples\<close>, which is never positive; the
  code neither shifts nor clips.
\<close>

theorem anomaly_scores_nonneg:
  "(detect_anomalies fit db now uid = Inr (db1, flagged) \<longrightarrow>
      (\<forall>r \<in> set flagged. 0 \<le> anomaly_score r)
      \<and> (\<forall>r \<in> set (expenses db1). r \<in> set (expenses db) \<or> 0 \<le> anomaly_score r))
   \<and> (check_new_expense fit db now uid eid = Inr (db2, a, s, e) \<longrightarrow>
      0 \<le> s
      \<and> (\<forall>r \<in> set (expenses db2). r \<in> set (expenses db) \<or> 0 \<le> anomaly_score r))"
proof (intro conjI impI)
  assume d: "detect_anomalies fit db now uid = Inr (db1, flagged)"
  let ?df = "get_user_expenses db now uid 90"
  have "(\<forall>r \<in> set flagged. 0 \<le> anomaly_score r)
      \<and> (\<forall>r \<in> set (expenses db1). r \<in> set (expenses db) \<or> 0 \<le> anomaly_score r)"
  proof (cases "length ?df < 10")
    case True
    with d show ?thesis by (simp add: detect_anomalies_def)
  next
    case False
    then obtain Xs where "detect_anomalies fit db now uid =
        Inr (write_back db (with_scores (fit Xs) ?df Xs),
             filter is_anomaly (with_scores (fit Xs) ?df Xs))"
      using detect_anomalies_scored by blast
    with d have db1: "db1 = write_back db (with_scores (fit Xs) ?df Xs)"
      and fl: "flagged = filter is_anomaly (with_scores (fit Xs) ?df Xs)"
      by simp_all
    have "\<forall>r \<in> set flagged. 0 \<le> anomaly_score r"
      using fl with_scores_nonneg by auto
    moreover have "\<forall>r \<in> set (expenses db1). r \<in> set (expenses db) \<or> 0 \<le> anomaly_score r"
      unfolding db1 using write_back_rows [of "with_scores (fit Xs) ?df Xs" db db]
        with_scores_nonneg by blast
    ultimately show ?thesis by simp
  qed
  then show "\<forall>r \<in> set flagged. 0 \<le> anomaly_score r"
    and "\<forall>r \<in> set (expenses db1). r \<in> set (expenses db) \<or> 0 \<le> anomaly_score r"
    by simp_all
next
  assume c: "check_new_expense fit db now uid eid = Inr (db2, a, s, e)"
  from check_new_expense_store [OF c] show "0 \<le> s" by auto
  from check_new_expense_store [OF c]
  show "\<forall>r \<in> set (expenses db2). r \<in> set (expenses db) \<or> 0 \<le> anomaly_score r"
    using update_anomaly_status_rows by blast
qed

text \<open>
  C5 at the store of ten rows: all ten rows are flagged, and their scores are at
  least 0.
\<close>

theorem anomaly_scores_nonneg_witness:
  "\<exists>db1 flagged. detect_anomalies flag_all db_ten now_ten 1 = Inr (db1, flagged)
     \<and> length flagged = 10 \<and> 0 \<le> anomaly_score (hd flagged)
     \<and> check_new_expense flag_all db_ten now_ten 1 1
          = Inr (update_anomaly_status db_ten 1 True 1, True, 1, UnusualPattern)"
proof -
  let ?df = "get_user_expenses db_ten now_ten 1 90"
  have n: "\<not> length ?df < 10" and len: "length ?df = 10"
    by (simp_all add: window_ten)
  obtain Xs where Xs: "length Xs = length ?df"
    and d: "detect_anomalies flag_all db_ten now_ten 1 =
              Inr (write_back db_ten (with_scores (flag_all Xs) ?df Xs),
                   filter is_anomaly (with_scores (flag_all Xs) ?df Xs))"
    using detect_anomalies_scored [OF n, of flag_all] by blast
  let ?fl = "filter is_anomaly (with_scores (flag_all Xs) ?df Xs)"
  have "?fl = with_scores (flag_all Xs) ?df Xs"
    unfolding filter_id_conv using flag_all_flags by blast
  then have l: "length ?fl = 10"
    using length_with_scores [OF Xs] len by simp
  then have "hd ?fl \<in> set ?fl"
    by (cases ?fl) simp_all
  then have "0 \<le> anomaly_score (hd ?fl)"
    using anomaly_scores_nonneg [of flag_all db_ten now_ten 1 _ ?fl 1] d by blast
  with d l check_ten show ?thesis by blast
qed

text \<open>
  C8. When the user has fewer than 10 transactions in the 90-day window,
  \<^verbatim>\<open>detect_anomalies\<close> returns the empty frame and leaves the store as it is, and
  \<^verbatim>\<open>check_new_expense\<close> returns no anomaly with score 0 ("Not enough data for
  anomaly detection"), the store unchanged.
\<close>

theorem cold_start:
  assumes "length (get_user_expenses db now uid 90) < 10"
  shows "detect_anomalies fit db now uid = Inr (db, [])
       \<and> check_new_expense fit db now uid eid = Inr (db, False, 0, NotEnoughData)"
  using assms by (simp add: detect_anomalies_def check_new_expense_def)

text \<open>
  C8 at a user with three transactions in the window.
\<close>

theorem cold_start_witness:
  "length (get_user_expenses db_three now_ten 1 90) = 3
   \<and> detect_anomalies flag_all db_three now_ten 1 = Inr (db_three, [])
   \<and> check_new_expense flag_all db_three now_ten 1 1 = Inr (db_three, False, 0, NotEnoughData)"
proof -
  have h: "length (get_user_expenses db_three now_ten 1 90) < 10"
    by (simp add: window_three)
  show ?thesis
    using cold_start [OF h, of flag_all 1] by (simp add: window_three)
qed

text \<open>
  C9. Whenever \<^verbatim>\<open>check_new_expense\<close> returns, the preferences and the forecasts are
  as before, the table of expenses keeps its rows in place, every row whose id is not
  the target id is unchanged, and, when the target was scored (the explanation is
  neither "Not enough data" nor "Expense not found"), the rows with the target id
  hold the returned \<^verbatim>\<open>is_anomaly\<close> and score in place of the old ones.
\<close>

theorem check_new_expense_frame:
  assumes "check_new_expense fit db now uid eid = Inr (db1, a, s, e)"
  shows "user_preferences db1 = user_preferences db \<and> forecasts db1 = forecasts db
       \<and> length (expenses db1) = length (expenses db)
       \<and> (\<forall>i < length (expenses db).
             (id' (expenses db ! i) \<noteq> eid \<longrightarrow> expenses db1 ! i = expenses db ! i)
           \<and> (id' (expenses db ! i) = eid \<and> e \<notin> {NotEnoughData, ExpenseNotFound} \<longrightarrow>
                expenses db1 ! i = (expenses db ! i)\<lparr>is_anomaly := a, anomaly_score := s\<rparr>))"
  using check_new_expense_store [OF assms]
  by (auto simp: update_anomaly_status_def)

text \<open>
  C9 at the store of ten rows with target id 1: row 0 (the target) takes the new
  status, row 1 is unchanged.
\<close>

theorem check_new_expense_frame_witness:
  "check_new_expense flag_all db_ten now_ten 1 1
     = Inr (update_anomaly_status db_ten 1 True 1, True, 1, UnusualPattern)
   \<and> expenses (update_anomaly_status db_ten 1 True 1) ! 1 = expenses db_ten ! 1
   \<and> expenses (update_anomaly_status db_ten 1 True 1) ! 0
       = (expenses db_ten ! 0)\<lparr>is_anomaly := True, anomaly_score := 1\<rparr>"
proof -
  have len: "length (expenses db_ten) = 10"
    by (simp add: db_ten_def)
  have ids: "id' (expenses db_ten ! 1) \<noteq> 1" "id' (expenses db_ten ! 0) = 1"
    by (simp_all add: db_ten_def mk_expense_def)
  show ?thesis
    using check_new_expense_frame [OF check_ten] len ids by (simp add: check_ten)
qed

subsection \<open>Forecasting engine\<close>

text \<open>
  Past the gate on the number of rows the function raises: ValueError from Prophet
  when the daily series has fewer than two rows, TypeError from the comparison of the
  forecast's timestamps with a \<^verbatim>\<open>datetime.date\<close> otherwise. A result that is returned
  is therefore the one of too little data, and every list of points that is returned
  is one that the loop builds.
\<close>

lemma forecast_single_day:
  assumes "\<not> length (get_user_expenses db now uid 90) < MIN_DATA_POINTS"
    and "length (daily_series (get_user_expenses db now uid 90)) < 2"
  shows "forecast_expenses_prophet P db now uid = Inl ValueError"
  using assms by (simp add: forecast_expenses_prophet_def Let_def prophet_fit_def)

lemma forecast_two_days_raises:
  assumes "\<not> length (get_user_expenses db now uid 90) < MIN_DATA_POINTS"
    and "\<not> length (daily_series (get_user_expenses db now uid 90)) < 2"
  shows "forecast_expenses_prophet P db now uid = Inl TypeError"
  using assms
  by (simp add: forecast_expenses_prophet_def Let_def prophet_fit_def datetime64_gt_def)

lemma forecast_returns_no_points:
  assumes "forecast_expenses_prophet P db now uid = Inr (db1, res)"
  shows "db1 = db \<and> \<not> success res \<and> forecast_points res = []"
proof (cases "length (get_user_expenses db now uid 90) < MIN_DATA_POINTS")
  case True
  with assms show ?thesis
    by (auto simp: forecast_expenses_prophet_def)
next
  case False
  show ?thesis
  proof (cases "length (daily_series (get_user_expenses db now uid 90)) < 2")
    case True
    with False assms show ?thesis
      by (simp add: forecast_single_day)
  next
    case two: False
    with False assms show ?thesis
      by (simp add: forecast_two_days_raises)
  qed
qed

lemma forecast_points_from_loop:
  assumes "forecast_expenses_prophet P db now uid = Inr (db1, res)"
  shows "forecast_points res = forecast_out []"
  using forecast_returns_no_points [OF assms] by (simp add: forecast_out_def)

lemma window_thirty: "length (get_user_expenses db_thirty now_thirty 1 90) = 30"
  by code_simp

lemma series_thirty: "length (daily_series (get_user_expenses db_thirty now_thirty 1 90)) = 30"
  by code_simp

lemma window_sameday: "length (get_user_expenses db_sameday now_thirty 1 90) = 30"
  by code_simp

lemma series_sameday: "length (daily_series (get_user_expenses db_sameday now_thirty 1 90)) = 1"
  by code_simp

lemma forecast_thirty_days_raises:
  "forecast_expenses_prophet P db_thirty now_thirty 1 = Inl TypeError"
proof -
  have a: "\<not> length (get_user_expenses db_thirty now_thirty 1 90) < MIN_DATA_POINTS"
    by (simp add: window_thirty MIN_DATA_POINTS_def)
  have b: "\<not> length (daily_series (get_user_expenses db_thirty now_thirty 1 90)) < 2"
    by (simp add: series_thirty)
  show ?thesis
    using forecast_two_days_raises [OF a b] .
qed

subsection \<open>Claims on the forecasting engine\<close>




text \<open>
  C7 fails on the code. A user with 30 transactions in the window, all of one day,
  passes the gate of \<^verbatim>\<open>MIN_DATA_POINTS\<close> rows; the daily series has one row, Prophet
  refuses to fit it, and \<^verbatim>\<open>forecast_expenses_prophet\<close> raises ValueError instead of
  returning 30 points.
\<close>

theorem forecast_single_day_raises:
  "length (get_user_expenses db_sameday now_thirty 1 90) = 30
   \<and> forecast_expenses_prophet P db_sameday now_thirty 1 = Inl ValueError"
proof -
  have a: "\<not> length (get_user_expenses db_sameday now_thirty 1 90) < MIN_DATA_POINTS"
    by (simp add: window_sameday MIN_DATA_POINTS_def)
  have b: "length (daily_series (get_user_expenses db_sameday now_thirty 1 90)) < 2"
    by (simp add: series_sameday)
  show ?thesis
    using forecast_single_day [OF a b] window_sameday by simp
qed

subsection \<open>Budget projector\<close>

text \<open>
  The month end and the remaining days at the clock of the examples, and the two
  windows of 30 days.
\<close>

lemma month_end_june:
  "add_days ((add_days (now_ten\<lparr>day := 28\<rparr>) 4)\<lparr>day := 1\<rparr>) (- 1) = now_ten\<lparr>day := 30\<rparr>"
  by (simp add: add_days_def ord2ymd_def Let_def calendar_defs now_ten_def)

lemma remaining_june: "delta_days (now_ten\<lparr>day := 30\<rparr>) now_ten = 20"
  by (simp add: delta_days_def calendar_defs now_ten_def)

lemma window_budget:
  "get_user_expenses db_budget now_ten 1 30 =
     [mk_expense 1 20000 ''rent'' ''UPI'' (at_noon 2024 6 5),
      mk_expense 2 10000 ''travel'' ''UPI'' (at_noon 2024 5 20)]"
  by (simp add: get_user_expenses_def db_budget_def mk_expense_def at_noon_def now_ten_def
      calendar_defs)

lemma window_budget_june:
  "get_user_expenses db_budget_june now_ten 1 30 =
     [mk_expense 1 20000 ''rent'' ''UPI'' (at_noon 2024 6 5)]"
  by (simp add: get_user_expenses_def db_budget_june_def db_budget_def mk_expense_def
      at_noon_def now_ten_def calendar_defs)

lemma budget_current_month_only:
  "detect_budget_overrun db_budget_june now_ten now_ten 1 =
     Some \<lparr>current_spending = 20000, projected_total = 60000, budget_limit = 30000,
           will_exceed = True, excess_amount = 30000, days_remaining = 20\<rparr>"
proof -
  have p: "get_user_preferences db_budget_june 1 =
     Some \<lparr>monthly_income = Some 60000, savings_goal = None,
           risk_tolerance = None, notification_enabled = True\<rparr>"
    by (simp add: get_user_preferences_def db_budget_june_def db_budget_def)
  have d: "day now_ten = 10"
    by (simp add: now_ten_def)
  show ?thesis
    by (simp add: detect_budget_overrun_def p window_budget_june month_end_june remaining_june d
        Let_def mk_expense_def)
qed

subsection \<open>Claims on the budget projector\<close>

text \<open>
  C3 fails on the code. On 2024-06-10 at 18:00, on a host whose local time is UTC
  (day 10 of a 30-day month), with income 60000,
  20000 spent in June and 10000 spent on 20 May, \<^verbatim>\<open>detect_budget_overrun\<close> sums the
  rows of the last 30 days, not those of the calendar month: current spending is
  30000 and the projection 90000 with excess 60000, where spend-to-date since the
  first of June is 20000 and gives 60000 and 30000.
\<close>

theorem budget_uses_rolling_window:
  "detect_budget_overrun db_budget now_ten now_ten 1 =
     Some \<lparr>current_spending = 30000, projected_total = 90000, budget_limit = 30000,
           will_exceed = True, excess_amount = 60000, days_remaining = 20\<rparr>"
proof -
  have p: "get_user_preferences db_budget 1 =
     Some \<lparr>monthly_income = Some 60000, savings_goal = None,
           risk_tolerance = None, notification_enabled = True\<rparr>"
    by (simp add: get_user_preferences_def db_budget_def)
  have d: "day now_ten = 10"
    by (simp add: now_ten_def)
  show ?thesis
    by (simp add: detect_budget_overrun_def p window_budget month_end_june remaining_june d
        Let_def mk_expense_def)
qed

text \<open>
  C10. \<^verbatim>\<open>detect_budget_overrun\<close> returns None exactly when the user has no
  preferences row, or the row has no monthly income, or the monthly income on file
  is 0.
\<close>

theorem zero_income_no_projection:
  "detect_budget_overrun db now today uid = None \<longleftrightarrow>
     (case get_user_preferences db uid of
        None \<Rightarrow> True
      | Some prefs \<Rightarrow> monthly_income prefs = None \<or> monthly_income prefs = Some 0)"
  by (simp add: detect_budget_overrun_def Let_def split: option.splits)

text \<open>
  C10 at a user whose monthly income on file is 0.
\<close>

theorem zero_income_no_projection_witness:
  "monthly_income (the (get_user_preferences db_zero_income 1)) = Some 0
   \<and> detect_budget_overrun db_zero_income now_ten now_ten 1 = None"
  using zero_income_no_projection [of db_zero_income now_ten now_ten 1]
  by (simp add: get_user_preferences_def db_zero_income_def)

end
